theory Spec2Isabelle
  imports Main
begin

section \<open>Shared value types\<close>

text \<open>
  A \<open>DateTimeField\<close> holds a timestamp in seconds and a \<open>DateField\<close> a day number;
  \<open>timezone.now().date()\<close> is the day of a timestamp, and a date stored into a
  \<open>DateTimeField\<close> is the midnight of that day. A \<open>DecimalField\<close> with two decimal
  places holds an integer number of hundredths. Foreign keys hold the primary key of
  the row they point to.
\<close>

type_synonym datetime = int
type_synonym date = int
type_synonym decimal = int

definition date_of :: "datetime \<Rightarrow> date" where
  "date_of t = t div 86400"

definition datetime_of_date :: "date \<Rightarrow> datetime" where
  "datetime_of_date d = d * 86400"

datatype error =
    ValueError string
  | DoesNotExist

subsection \<open>Formatting of integers\<close>

text \<open>
  \<open>str(n)\<close> for a natural number, and the format \<open>{n:0wd}\<close>: the decimal digits,
  padded on the left with zeros to a width of at least \<open>w\<close>.
\<close>

definition digit_char :: "nat \<Rightarrow> char" where
  "digit_char d = ''0123456789'' ! d"

fun str_nat :: "nat \<Rightarrow> string" where
  "str_nat n = (if n < 10 then [digit_char n]
                else str_nat (n div 10) @ [digit_char (n mod 10)])"

declare str_nat.simps [simp del]

definition zero_pad :: "nat \<Rightarrow> nat \<Rightarrow> string" where
  "zero_pad w n = replicate (w - length (str_nat n)) (CHR ''0'') @ str_nat n"

section \<open>The job pipeline (apps/job_pipeline/models.py)\<close>

text \<open>
  \<open>JobPipeline\<close>, with the fields that the modelled operations read or write.
  \<open>pk\<close> is the \<open>id\<close> column: \<open>None\<close> for an object that was never saved.
\<close>

record JobPipeline =
  pk :: "nat option"
  number :: "nat option"
  pipeline_id :: string
  client_name :: string
  service_description :: string
  estimated_value :: "decimal option"
  currency :: string
  current_stage :: string
  status :: string
  lead :: "nat option"
  opportunity :: "nat option"
  contract :: "nat option"
  lead_created_date :: "datetime option"
  opportunity_created_date :: "datetime option"
  contract_signed_date :: "datetime option"
  audit_scheduled_date :: "datetime option"
  audit_completed_date :: "datetime option"
  certificate_issued_date :: "datetime option"
  owner :: "nat option"
  created_at :: "datetime option"
  updated_at :: "datetime option"
  created_by :: "nat option"

record PipelineStageTransition =
  pipeline :: "nat option"
  from_stage :: string
  to_stage :: string
  transitioned_at :: datetime
  transitioned_by :: "nat option"
  transition_notes :: string

record PipelineMilestone =
  milestone_pipeline :: "nat option"
  milestone_type :: string
  title :: string
  description :: string
  due_date :: date
  is_critical :: bool
  assigned_to :: "nat option"

text \<open>
  The tables the pipeline code writes. \<open>desc_nulls_first\<close> is a property of the
  database backend: whether \<open>ORDER BY number DESC\<close> lists the rows whose number is
  NULL before the others (PostgreSQL, Oracle) or after them (SQLite, MySQL).
\<close>

record database =
  pipelines :: "JobPipeline list"
  stage_transitions :: "PipelineStageTransition list"
  milestones :: "PipelineMilestone list"
  desc_nulls_first :: bool

subsection \<open>Queries and the base \<open>Model.save\<close>\<close>

definition fresh_pk :: "JobPipeline list \<Rightarrow> nat" where
  "fresh_pk rows = Suc (fold max (List.map_filter pk rows) 0)"

text \<open>
  \<open>super().save()\<close>: an object without primary key is inserted under a fresh key; an
  object with a key replaces the row of that key, or is inserted when there is none.
  \<open>updated_at\<close> is \<open>auto_now\<close>, \<open>created_at\<close> is \<open>auto_now_add\<close>. The uniqueness
  constraints of the columns are checked by the database engine and are not modelled:
  the write is one that the database accepts.
\<close>

definition base_save :: "datetime \<Rightarrow> JobPipeline \<Rightarrow> database \<Rightarrow> JobPipeline \<times> database" where
  "base_save now p db =
     (case pk p of
        None \<Rightarrow>
          (let p' = p\<lparr>pk := Some (fresh_pk (pipelines db)),
                       created_at := Some now, updated_at := Some now\<rparr>
           in (p', db\<lparr>pipelines := pipelines db @ [p']\<rparr>))
      | Some i \<Rightarrow>
          (if list_ex (\<lambda>r. pk r = Some i) (pipelines db)
           then (let p' = p\<lparr>updated_at := Some now\<rparr>
                 in (p', db\<lparr>pipelines :=
                       map (\<lambda>r. if pk r = Some i then p' else r) (pipelines db)\<rparr>))
           else (let p' = p\<lparr>created_at := Some now, updated_at := Some now\<rparr>
                 in (p', db\<lparr>pipelines := pipelines db @ [p']\<rparr>))))"

text \<open>
  \<open>.order_by('-key').first()\<close> over a list of rows: the row with the greatest key, the
  rows whose key is NULL coming first or last as the backend orders them; among rows of
  equal key, the one stored first.
\<close>

definition first_desc :: "bool \<Rightarrow> ('r \<Rightarrow> 'k::linorder option) \<Rightarrow> 'r list \<Rightarrow> 'r option" where
  "first_desc nulls_first key rows =
     (if nulls_first \<and> list_ex (\<lambda>r. key r = None) rows
      then find (\<lambda>r. key r = None) rows
      else (case List.map_filter key rows of
              [] \<Rightarrow> find (\<lambda>r. key r = None) rows
            | k # ks \<Rightarrow> find (\<lambda>r. key r = Some (fold max ks k)) rows))"

text \<open>\<open>JobPipeline.objects.order_by('-number').first()\<close>\<close>

definition order_by_number_desc_first :: "database \<Rightarrow> JobPipeline option" where
  "order_by_number_desc_first db = first_desc (desc_nulls_first db) number (pipelines db)"

text \<open>
  \<open>JobPipeline.objects.filter(...).first()\<close>, in the default ordering of the model,
  \<open>Meta.ordering = ['-updated_at']\<close>.
\<close>

definition filter_first :: "(JobPipeline \<Rightarrow> bool) \<Rightarrow> database \<Rightarrow> JobPipeline option" where
  "filter_first P db = first_desc (desc_nulls_first db) updated_at (filter P (pipelines db))"

subsection \<open>\<open>JobPipeline.save\<close>\<close>

text \<open>\<open>not self.number\<close> holds for \<open>None\<close> and for \<open>0\<close>.\<close>

definition falsy_number :: "nat option \<Rightarrow> bool" where
  "falsy_number n = (case n of None \<Rightarrow> True | Some k \<Rightarrow> k = 0)"

definition next_number :: "database \<Rightarrow> nat" where
  "next_number db =
     (case order_by_number_desc_first db of
        None \<Rightarrow> 1
      | Some last_pipeline \<Rightarrow>
          (case number last_pipeline of
             None \<Rightarrow> 1
           | Some k \<Rightarrow> if k = 0 then 1 else k + 1))"

definition assign_number :: "database \<Rightarrow> JobPipeline \<Rightarrow> JobPipeline" where
  "assign_number db p =
     (if falsy_number (number p) then p\<lparr>number := Some (next_number db)\<rparr> else p)"

text \<open>
  The second step of \<open>save\<close>; it runs after the first, so the number is set when
  the format reads it.
\<close>

definition assign_pipeline_id :: "JobPipeline \<Rightarrow> JobPipeline" where
  "assign_pipeline_id p =
     (if pipeline_id p = []
      then (case number p of
              None \<Rightarrow> p
            | Some n \<Rightarrow> p\<lparr>pipeline_id := ''PL-'' @ zero_pad 5 n\<rparr>)
      else p)"

definition save :: "datetime \<Rightarrow> JobPipeline \<Rightarrow> database \<Rightarrow> JobPipeline \<times> database" where
  "save now p db = base_save now (assign_pipeline_id (assign_number db p)) db"

subsection \<open>\<open>JobPipeline.advance_stage\<close>\<close>

definition valid_progressions :: "(string \<times> string list) list" where
  "valid_progressions =
     [(''LEAD'', [''OPPORTUNITY'', ''CLOSED'']),
      (''OPPORTUNITY'', [''CONTRACT'', ''CLOSED'']),
      (''CONTRACT'', [''AUDIT_SCHEDULED'', ''CLOSED'']),
      (''AUDIT_SCHEDULED'', [''AUDIT_IN_PROGRESS'']),
      (''AUDIT_IN_PROGRESS'', [''AUDIT_COMPLETED'']),
      (''AUDIT_COMPLETED'', [''CERTIFICATE_ISSUED'', ''SURVEILLANCE_DUE'']),
      (''CERTIFICATE_ISSUED'', [''SURVEILLANCE_DUE'', ''CLOSED'']),
      (''SURVEILLANCE_DUE'', [''AUDIT_SCHEDULED'', ''CLOSED''])]"

text \<open>\<open>valid_progressions.get(stage, [])\<close>\<close>

definition successors :: "string \<Rightarrow> string list" where
  "successors stage = (case map_of valid_progressions stage of None \<Rightarrow> [] | Some l \<Rightarrow> l)"

definition update_timestamps :: "string \<Rightarrow> datetime \<Rightarrow> JobPipeline \<Rightarrow> JobPipeline" where
  "update_timestamps new_stage now p =
     (if new_stage = ''OPPORTUNITY'' then p\<lparr>opportunity_created_date := Some now\<rparr>
      else if new_stage = ''CONTRACT'' then p\<lparr>contract_signed_date := Some now\<rparr>
      else if new_stage = ''AUDIT_SCHEDULED'' then p\<lparr>audit_scheduled_date := Some now\<rparr>
      else if new_stage = ''AUDIT_COMPLETED'' then p\<lparr>audit_completed_date := Some now\<rparr>
      else if new_stage = ''CERTIFICATE_ISSUED'' then p\<lparr>certificate_issued_date := Some now\<rparr>
      else p)"

text \<open>
  A method call returns the exception it raised, if any, with the pipeline object and
  the database as the call left them. \<open>now\<close> is the reading of the clock during the
  call.
\<close>

type_synonym outcome = "error option \<times> JobPipeline \<times> database"

text \<open>
  \<open>PipelineStageTransition.objects.create(...)\<close>. \<open>transitioned_at\<close> is
  \<open>auto_now_add\<close>: the row gets the time of its insertion, which is the clock reading
  of the call.
\<close>

definition create_transition ::
  "JobPipeline \<Rightarrow> string \<Rightarrow> string \<Rightarrow> nat option \<Rightarrow> datetime \<Rightarrow> database \<Rightarrow> database" where
  "create_transition p old_stage new_stage user now db =
     db\<lparr>stage_transitions := stage_transitions db @
          [\<lparr>pipeline = pk p, from_stage = old_stage, to_stage = new_stage,
            transitioned_at = now, transitioned_by = user, transition_notes = []\<rparr>]\<rparr>"

definition advance_stage ::
  "datetime \<Rightarrow> JobPipeline \<Rightarrow> string \<Rightarrow> nat option \<Rightarrow> database \<Rightarrow> outcome" where
  "advance_stage now self new_stage user db =
     (if new_stage \<notin> set (successors (current_stage self))
      then (Some (ValueError (''Cannot advance from '' @ current_stage self @ '' to '' @ new_stage)),
            self, db)
      else
        (let old_stage = current_stage self;
             self1 = update_timestamps new_stage now (self\<lparr>current_stage := new_stage\<rparr>);
             (self2, db2) = save now self1 db
         in (None, self2, create_transition self2 old_stage new_stage user now db2)))"

text \<open>
  A caller that issues several requests in turn and catches the exception of each, as
  the \<open>advance_stage\<close> action of the viewset does; a request is the time of the call,
  the requested stage and the user.
\<close>

fun advance_requests ::
  "JobPipeline \<Rightarrow> (datetime \<times> string \<times> nat option) list \<Rightarrow> database \<Rightarrow> JobPipeline \<times> database" where
  "advance_requests self [] db = (self, db)"
| "advance_requests self ((now, new_stage, user) # rest) db =
     (case advance_stage now self new_stage user db of
        (_, self', db') \<Rightarrow> advance_requests self' rest db')"

subsection \<open>The stage graph\<close>

text \<open>The keys of \<open>JobPipeline.STAGE_CHOICES\<close>, in the order of the source.\<close>

definition STAGE_CHOICES :: "string list" where
  "STAGE_CHOICES =
     [''LEAD'', ''OPPORTUNITY'', ''CONTRACT'', ''AUDIT_SCHEDULED'', ''AUDIT_IN_PROGRESS'',
      ''AUDIT_COMPLETED'', ''CERTIFICATE_ISSUED'', ''SURVEILLANCE_DUE'', ''CLOSED'']"

fun index_of :: "'a \<Rightarrow> 'a list \<Rightarrow> nat" where
  "index_of x [] = 0"
| "index_of x (y # ys) = (if x = y then 0 else Suc (index_of x ys))"

text \<open>
  A sequence of stages in which each one is entered from the one before by a transition
  that \<open>advance_stage\<close> accepts.
\<close>

fun valid_path :: "string list \<Rightarrow> bool" where
  "valid_path (a # b # rest) = (b \<in> set (successors a) \<and> valid_path (b # rest))"
| "valid_path _ = True"

text \<open>The same, without the transition from \<open>SURVEILLANCE_DUE\<close> back to \<open>AUDIT_SCHEDULED\<close>.\<close>

fun forward_path :: "string list \<Rightarrow> bool" where
  "forward_path (a # b # rest) =
     (b \<in> set (successors a) \<and> (a, b) \<noteq> (''SURVEILLANCE_DUE'', ''AUDIT_SCHEDULED'')
      \<and> forward_path (b # rest))"
| "forward_path _ = True"

section \<open>The related business objects\<close>

text \<open>
  \<open>Lead\<close>, \<open>Opportunity\<close> and \<open>Contract\<close> of apps/business_development/models.py and
  \<open>Audit\<close> of apps/audits/models.py, with the fields the pipeline code reads. The objects
  are saved ones, so they have a primary key. \<open>opp_client_name\<close> is \<open>client.name\<close> of
  the related client, \<open>None\<close> when the opportunity has no client.
\<close>

record Lead =
  lead_pk :: nat
  company_name :: string
  lead_estimated_value :: "decimal option"
  lead_currency :: string
  lead_status :: string
  lead_assigned_to :: "nat option"
  lead_created_by :: "nat option"
  lead_created_at :: datetime

record Opportunity =
  opp_pk :: nat
  opp_client_name :: "string option"
  opp_lead :: "nat option"
  opp_description :: string
  opp_estimated_value :: decimal
  opp_currency :: string
  opp_status :: string
  opp_expected_close_date :: date
  opp_owner :: "nat option"
  opp_created_by :: "nat option"
  opp_created_at :: datetime

record Contract =
  contract_pk :: nat
  contract_number :: string
  contract_opportunity :: "nat option"
  agreement_date :: "date option"
  client_organization :: string
  start_date :: "date option"
  contract_value :: decimal
  contract_currency :: string
  contract_status :: string
  contract_created_by :: "nat option"
  contract_created_at :: datetime

record Audit =
  audit_pk :: nat
  audit_pipeline :: "nat option"
  audit_type :: string
  planned_start_date :: "date option"
  planned_end_date :: "date option"
  lead_auditor :: "nat option"
  audit_status :: string

datatype related_object =
    LeadObj Lead
  | OpportunityObj Opportunity
  | ContractObj Contract
  | AuditObj Audit
  | OtherObj

subsection \<open>\<open>JobPipeline.update_from_related_object\<close>\<close>




section \<open>The signal handlers (apps/job_pipeline/signals.py)\<close>

text \<open>
  \<open>JobPipeline.objects.create(**kwargs)\<close> builds an object from the field defaults of
  the model and the given values, and saves it.
\<close>

definition new_pipeline :: JobPipeline where
  "new_pipeline =
     \<lparr>pk = None, number = None, pipeline_id = [], client_name = [],
      service_description = [], estimated_value = None, currency = ''USD'',
      current_stage = ''LEAD'', status = ''ACTIVE'', lead = None, opportunity = None,
      contract = None, lead_created_date = None, opportunity_created_date = None,
      contract_signed_date = None, audit_scheduled_date = None,
      audit_completed_date = None, certificate_issued_date = None, owner = None,
      created_at = None, updated_at = None, created_by = None\<rparr>"

definition create_milestone :: "PipelineMilestone \<Rightarrow> database \<Rightarrow> database" where
  "create_milestone m db = db\<lparr>milestones := milestones db @ [m]\<rparr>"

definition create_lead_milestones :: "datetime \<Rightarrow> JobPipeline \<Rightarrow> Lead \<Rightarrow> database \<Rightarrow> database" where
  "create_lead_milestones now p l db =
     create_milestone
       \<lparr>milestone_pipeline = pk p, milestone_type = ''PROPOSAL_DUE'',
        title = ''Send Proposal'',
        description = ''Prepare and send proposal to '' @ company_name l,
        due_date = date_of now + 7, is_critical = True, assigned_to = None\<rparr> db"

definition create_opportunity_milestones :: "JobPipeline \<Rightarrow> Opportunity \<Rightarrow> database \<Rightarrow> database" where
  "create_opportunity_milestones p opp db =
     create_milestone
       \<lparr>milestone_pipeline = pk p, milestone_type = ''CONTRACT_SIGNATURE'',
        title = ''Contract Signature'',
        description = ''Get contract signed by '' @
          (case opp_client_name opp of Some n \<Rightarrow> n | None \<Rightarrow> ''client''),
        due_date = opp_expected_close_date opp, is_critical = True, assigned_to = None\<rparr> db"

definition create_contract_milestones ::
  "datetime \<Rightarrow> JobPipeline \<Rightarrow> Contract \<Rightarrow> database \<Rightarrow> database" where
  "create_contract_milestones now p c db =
     create_milestone
       \<lparr>milestone_pipeline = pk p, milestone_type = ''AUDIT_SCHEDULED'',
        title = ''Schedule Initial Audit'',
        description = ''Schedule initial certification audit for '' @ client_organization c,
        due_date = (case start_date c of Some d \<Rightarrow> d + 30 | None \<Rightarrow> date_of now + 30),
        is_critical = True, assigned_to = None\<rparr> db"

definition create_audit_milestones :: "JobPipeline \<Rightarrow> Audit \<Rightarrow> database \<Rightarrow> database" where
  "create_audit_milestones p a db =
     (let start = (case planned_start_date a of
                     None \<Rightarrow> []
                   | Some d \<Rightarrow>
                       [\<lparr>milestone_pipeline = pk p, milestone_type = ''AUDIT_START'',
                         title = ''Audit Start'',
                         description = ''Begin '' @ audit_type a @ '' audit'',
                         due_date = d, is_critical = True, assigned_to = lead_auditor a\<rparr>]);
          finish = (case planned_end_date a of
                      None \<Rightarrow> []
                    | Some d \<Rightarrow>
                        [\<lparr>milestone_pipeline = pk p, milestone_type = ''AUDIT_COMPLETION'',
                          title = ''Audit Completion'',
                          description = ''Complete '' @ audit_type a @ '' audit'',
                          due_date = d, is_critical = True, assigned_to = lead_auditor a\<rparr>,
                         \<lparr>milestone_pipeline = pk p, milestone_type = ''CERTIFICATE_ISSUE'',
                          title = ''Certificate Issue'',
                          description = ''Issue certification after audit completion'',
                          due_date = d + 14, is_critical = True,
                          assigned_to = lead_auditor a\<rparr>])
      in fold create_milestone (start @ finish) db)"

definition create_pipeline_from_lead :: "datetime \<Rightarrow> Lead \<Rightarrow> bool \<Rightarrow> database \<Rightarrow> database" where
  "create_pipeline_from_lead now instance created db =
     (if created \<and> lead_status instance \<in> set [''QUALIFIED'', ''PROPOSAL_SENT'']
      then (if \<not> list_ex (\<lambda>r. lead r = Some (lead_pk instance)) (pipelines db)
            then (case save now
                         (new_pipeline\<lparr>client_name := company_name instance,
                            service_description := ''Lead for '' @ company_name instance,
                            estimated_value := lead_estimated_value instance,
                            currency := lead_currency instance,
                            current_stage := ''LEAD'',
                            lead := Some (lead_pk instance),
                            owner := lead_assigned_to instance,
                            lead_created_date := Some (lead_created_at instance),
                            created_by := lead_created_by instance\<rparr>) db of
                    (p, db1) \<Rightarrow> create_lead_milestones now p instance db1)
            else db)
      else db)"

definition update_pipeline_from_opportunity ::
  "datetime \<Rightarrow> Opportunity \<Rightarrow> bool \<Rightarrow> database \<Rightarrow> database" where
  "update_pipeline_from_opportunity now instance created db =
     (if created
      then (case (case (case opp_lead instance of
                          None \<Rightarrow> None
                        | Some l \<Rightarrow> filter_first (\<lambda>r. lead r = Some l) db) of
                    Some p \<Rightarrow>
                      save now
                        (p\<lparr>opportunity := Some (opp_pk instance),
                           current_stage := ''OPPORTUNITY'',
                           opportunity_created_date := Some (opp_created_at instance),
                           client_name := (case opp_client_name instance of
                                             Some n \<Rightarrow> n | None \<Rightarrow> client_name p),
                           estimated_value := Some (opp_estimated_value instance),
                           currency := opp_currency instance,
                           owner := opp_owner instance\<rparr>) db
                  | None \<Rightarrow>
                      save now
                        (new_pipeline\<lparr>client_name := (case opp_client_name instance of
                                             Some n \<Rightarrow> n | None \<Rightarrow> ''Unknown Client''),
                           service_description := opp_description instance,
                           estimated_value := Some (opp_estimated_value instance),
                           currency := opp_currency instance,
                           current_stage := ''OPPORTUNITY'',
                           opportunity := Some (opp_pk instance),
                           owner := opp_owner instance,
                           opportunity_created_date := Some (opp_created_at instance),
                           created_by := opp_created_by instance\<rparr>) db) of
              (p, db1) \<Rightarrow> create_opportunity_milestones p instance db1)
      else (case filter_first (\<lambda>r. opportunity r = Some (opp_pk instance)) db of
              None \<Rightarrow> db
            | Some p \<Rightarrow>
                (if opp_status instance = ''CLOSED_WON'' \<and> current_stage p = ''OPPORTUNITY''
                 then snd (save now (p\<lparr>current_stage := ''CONTRACT''\<rparr>) db)
                 else if opp_status instance = ''CLOSED_LOST''
                 then snd (save now (p\<lparr>status := ''CANCELLED''\<rparr>) db)
                 else db)))"

definition update_pipeline_from_contract ::
  "datetime \<Rightarrow> Contract \<Rightarrow> bool \<Rightarrow> database \<Rightarrow> database" where
  "update_pipeline_from_contract now instance created db =
     (if created
      then (case (case (case contract_opportunity instance of
                          None \<Rightarrow> None
                        | Some opp \<Rightarrow> filter_first (\<lambda>r. opportunity r = Some opp) db) of
                    Some p \<Rightarrow>
                      save now
                        (p\<lparr>contract := Some (contract_pk instance),
                           current_stage := ''CONTRACT'',
                           contract_signed_date :=
                             Some (case agreement_date instance of
                                     Some d \<Rightarrow> datetime_of_date d | None \<Rightarrow> now),
                           client_name := client_organization instance,
                           estimated_value := Some (contract_value instance),
                           currency := contract_currency instance\<rparr>) db
                  | None \<Rightarrow>
                      save now
                        (new_pipeline\<lparr>client_name := client_organization instance,
                           service_description :=
                             ''Contract services for '' @ client_organization instance,
                           estimated_value := Some (contract_value instance),
                           currency := contract_currency instance,
                           current_stage := ''CONTRACT'',
                           contract := Some (contract_pk instance),
                           contract_signed_date :=
                             Some (case agreement_date instance of
                                     Some d \<Rightarrow> datetime_of_date d | None \<Rightarrow> now),
                           created_by := contract_created_by instance\<rparr>) db) of
              (p, db1) \<Rightarrow> create_contract_milestones now p instance db1)
      else db)"

text \<open>
  \<open>instance.pipeline\<close> loads the row the foreign key points to; \<open>Inl DoesNotExist\<close> when
  there is no such row.
\<close>

definition instance_pipeline :: "Audit \<Rightarrow> database \<Rightarrow> error + JobPipeline option" where
  "instance_pipeline a db =
     (case audit_pipeline a of
        None \<Rightarrow> Inr None
      | Some i \<Rightarrow> (case find (\<lambda>r. pk r = Some i) (pipelines db) of
                     None \<Rightarrow> Inl DoesNotExist
                   | Some p \<Rightarrow> Inr (Some p)))"

definition update_pipeline_from_audit ::
  "datetime \<Rightarrow> Audit \<Rightarrow> bool \<Rightarrow> database \<Rightarrow> error option \<times> database" where
  "update_pipeline_from_audit now instance created db =
     (case instance_pipeline instance db of
        Inl e \<Rightarrow> (Some e, db)
      | Inr None \<Rightarrow> (None, db)
      | Inr (Some p) \<Rightarrow>
          (if created
           then (if current_stage p = ''CONTRACT''
                 then (case save now (p\<lparr>current_stage := ''AUDIT_SCHEDULED'',
                                         audit_scheduled_date := Some now\<rparr>) db of
                         (p1, db1) \<Rightarrow> (None, create_audit_milestones p1 instance db1))
                 else (None, db))
           else (if audit_status instance = ''IN_PROGRESS'' \<and> current_stage p = ''AUDIT_SCHEDULED''
                 then (None, snd (save now (p\<lparr>current_stage := ''AUDIT_IN_PROGRESS''\<rparr>) db))
                 else if audit_status instance = ''COMPLETED''
                         \<and> current_stage p = ''AUDIT_IN_PROGRESS''
                 then (None, snd (save now (p\<lparr>current_stage := ''AUDIT_COMPLETED'',
                                              audit_completed_date := Some now\<rparr>) db))
                 else (None, db))))"

text \<open>
  The dispatch of \<open>post_save\<close>: each receiver is registered for one sender class.
\<close>

definition post_save :: "datetime \<Rightarrow> related_object \<Rightarrow> bool \<Rightarrow> database \<Rightarrow> error option \<times> database" where
  "post_save now instance created db =
     (case instance of
        LeadObj l \<Rightarrow> (None, create_pipeline_from_lead now l created db)
      | OpportunityObj opp \<Rightarrow> (None, update_pipeline_from_opportunity now opp created db)
      | ContractObj c \<Rightarrow> (None, update_pipeline_from_contract now c created db)
      | AuditObj a \<Rightarrow> update_pipeline_from_audit now a created db
      | OtherObj \<Rightarrow> (None, db))"

section \<open>Certifications (apps/certifications/models.py, views.py)\<close>

record Certification =
  certificate_number :: string
  issue_date :: date
  expiry_date :: "date option"
  cert_status :: string

text \<open>The keys of \<open>Certification.STATUS_CHOICES\<close>.\<close>

definition STATUS_CHOICES :: "string list" where
  "STATUS_CHOICES =
     [''pending'', ''active'', ''expiring-soon'', ''expired'', ''suspended'', ''revoked'']"

text \<open>
  \<open>Certification.save\<close>, up to the call of \<open>super().save()\<close>, which writes the object
  as it is then. \<open>today\<close> is \<open>date.today()\<close>.
\<close>

definition Certification_save :: "date \<Rightarrow> Certification \<Rightarrow> Certification" where
  "Certification_save today self =
     (case expiry_date self of
        None \<Rightarrow> self
      | Some expiry \<Rightarrow>
          (let days_until_expiry = expiry - today in
           if cert_status self \<notin> set [''suspended'', ''revoked'']
           then (if days_until_expiry < 0 then self\<lparr>cert_status := ''expired''\<rparr>
                 else if days_until_expiry \<le> 90 then self\<lparr>cert_status := ''expiring-soon''\<rparr>
                 else if cert_status self = ''pending'' then self
                 else self\<lparr>cert_status := ''active''\<rparr>)
           else self))"

text \<open>
  The \<open>suspend\<close>, \<open>revoke\<close> and \<open>reactivate\<close> actions of \<open>CertificationViewSet\<close>; a
  request answered with status 400 leaves the certification as it is.
\<close>

definition suspend :: "date \<Rightarrow> Certification \<Rightarrow> Certification" where
  "suspend today certification =
     (if cert_status certification = ''suspended'' then certification
      else Certification_save today (certification\<lparr>cert_status := ''suspended''\<rparr>))"

definition revoke :: "date \<Rightarrow> Certification \<Rightarrow> Certification" where
  "revoke today certification =
     (if cert_status certification = ''revoked'' then certification
      else Certification_save today (certification\<lparr>cert_status := ''revoked''\<rparr>))"

definition reactivate :: "date \<Rightarrow> Certification \<Rightarrow> Certification" where
  "reactivate today certification =
     (if cert_status certification \<notin> set [''suspended'', ''revoked''] then certification
      else Certification_save today (certification\<lparr>cert_status := ''active''\<rparr>))"

text \<open>
  The lifecycle statuses as the specification lists them: active, expiring, expired,
  suspended, revoked.
\<close>

definition spec_lifecycle_statuses :: "string list" where
  "spec_lifecycle_statuses = [''active'', ''expiring'', ''expired'', ''suspended'', ''revoked'']"

section \<open>Contract numbers (apps/business_development/serializers.py)\<close>















section \<open>Notions used to state the properties\<close>






section \<open>Example data\<close>

text \<open>
  The objects of create\_test\_pipeline.py: a qualified lead, and the pipeline that the
  signal handler creates for it in an empty database.
\<close>

definition empty_db :: database where
  "empty_db = \<lparr>pipelines = [], stage_transitions = [], milestones = [], desc_nulls_first = False\<rparr>"

definition test_lead :: Lead where
  "test_lead =
     \<lparr>lead_pk = 1, company_name = ''Test Company PL-00001'',
      lead_estimated_value = Some 1000000, lead_currency = ''USD'',
      lead_status = ''QUALIFIED'', lead_assigned_to = Some 1, lead_created_by = Some 1,
      lead_created_at = 1000\<rparr>"

definition test_pipeline :: JobPipeline where
  "test_pipeline =
     new_pipeline\<lparr>pk := Some 1, number := Some 1, pipeline_id := ''PL-00001'',
       client_name := ''Test Company PL-00001'',
       service_description := ''Lead for Test Company PL-00001'',
       estimated_value := Some 1000000, lead := Some 1, owner := Some 1,
       lead_created_date := Some 1000, created_at := Some 1000, updated_at := Some 1000,
       created_by := Some 1\<rparr>"

definition test_db :: database where
  "test_db = empty_db\<lparr>pipelines := [test_pipeline]\<rparr>"

definition test_certification :: Certification where
  "test_certification =
     \<lparr>certificate_number = ''CERT-2025-001'', issue_date = 0, expiry_date = Some 130,
      cert_status = ''active''\<rparr>"







lemma zero_pad_5_1: "zero_pad 5 (Suc 0) = ''00001''"
  by code_simp


section \<open>The stage machine\<close>

lemma successors_cases:
  "b \<in> set (successors a) \<Longrightarrow>
     (a, b) \<in> {(''LEAD'', ''OPPORTUNITY''), (''LEAD'', ''CLOSED''),
       (''OPPORTUNITY'', ''CONTRACT''), (''OPPORTUNITY'', ''CLOSED''),
       (''CONTRACT'', ''AUDIT_SCHEDULED''), (''CONTRACT'', ''CLOSED''),
       (''AUDIT_SCHEDULED'', ''AUDIT_IN_PROGRESS''),
       (''AUDIT_IN_PROGRESS'', ''AUDIT_COMPLETED''),
       (''AUDIT_COMPLETED'', ''CERTIFICATE_ISSUED''), (''AUDIT_COMPLETED'', ''SURVEILLANCE_DUE''),
       (''CERTIFICATE_ISSUED'', ''SURVEILLANCE_DUE''), (''CERTIFICATE_ISSUED'', ''CLOSED''),
       (''SURVEILLANCE_DUE'', ''AUDIT_SCHEDULED''), (''SURVEILLANCE_DUE'', ''CLOSED'')}"
  unfolding successors_def valid_progressions_def
  by (simp split: if_splits)

lemma successors_CLOSED: "successors ''CLOSED'' = []"
  by (simp add: successors_def valid_progressions_def)


subsection \<open>Fields that \<open>save\<close> and \<open>update_timestamps\<close> leave alone\<close>



lemma base_save_db:
  assumes "base_save now q db = (q', db')"
  shows "stage_transitions db' = stage_transitions db"
    and "milestones db' = milestones db"
    and "desc_nulls_first db' = desc_nulls_first db"
    and "pk q' \<noteq> None"
    and "q' \<in> set (pipelines db')"
  using assms
  by (auto simp: base_save_def Let_def list_ex_iff split: option.splits if_splits)


lemma save_db:
  assumes "save now q db = (q', db')"
  shows "stage_transitions db' = stage_transitions db"
    and "milestones db' = milestones db"
    and "desc_nulls_first db' = desc_nulls_first db"
    and "pk q' \<noteq> None"
    and "q' \<in> set (pipelines db')"
  using base_save_db [OF assms [unfolded save_def]]
  by simp_all



lemma advance_stage_rejects:
  assumes "s \<notin> set (successors (current_stage p))"
  shows "advance_stage now p s u db =
    (Some (ValueError (''Cannot advance from '' @ current_stage p @ '' to '' @ s)), p, db)"
  using assms by (simp add: advance_stage_def)

subsection \<open>Rejected requests\<close>



subsection \<open>Accepted requests\<close>



subsection \<open>The terminal stage\<close>

text \<open>
  C9. \<open>CLOSED\<close> is terminal: for a pipeline whose current stage is \<open>CLOSED\<close>, every
  call of \<open>advance_stage\<close> raises \<open>ValueError\<close>, whatever stage is requested, and
  changes nothing; so after any sequence of requests the pipeline is still the same,
  at \<open>CLOSED\<close>.
\<close>

theorem closed_is_terminal:
  assumes "current_stage p = ''CLOSED''"
  shows "(\<exists>m. fst (advance_stage now p s u db) = Some (ValueError m))
    \<and> snd (advance_stage now p s u db) = (p, db)
    \<and> advance_requests p reqs db = (p, db)"
proof -
  have one: "\<And>now s u. advance_stage now p s u db =
      (Some (ValueError (''Cannot advance from '' @ current_stage p @ '' to '' @ s)), p, db)"
    using assms by (simp add: advance_stage_rejects successors_CLOSED)
  have "advance_requests p reqs db = (p, db)"
    by (induction reqs) (auto simp: one)
  then show ?thesis by (simp add: one)
qed

theorem closed_is_terminal_witness:
  "current_stage (test_pipeline\<lparr>current_stage := ''CLOSED''\<rparr>) = ''CLOSED''
   \<and> fst (advance_stage 2000 (test_pipeline\<lparr>current_stage := ''CLOSED''\<rparr>) ''LEAD'' None test_db)
       = Some (ValueError ''Cannot advance from CLOSED to LEAD'')
   \<and> advance_requests (test_pipeline\<lparr>current_stage := ''CLOSED''\<rparr>)
        [(2000, ''LEAD'', None), (3000, ''AUDIT_SCHEDULED'', Some 1)] test_db
       = (test_pipeline\<lparr>current_stage := ''CLOSED''\<rparr>, test_db)"
proof -
  have h: "current_stage (test_pipeline\<lparr>current_stage := ''CLOSED''\<rparr>) = ''CLOSED''"
    by simp
  have "fst (advance_stage 2000 (test_pipeline\<lparr>current_stage := ''CLOSED''\<rparr>) ''LEAD'' None
          test_db) = Some (ValueError ''Cannot advance from CLOSED to LEAD'')"
    by (simp add: advance_stage_rejects successors_CLOSED)
  with closed_is_terminal [OF h, of 2000 "''LEAD''" None test_db
         "[(2000, ''LEAD'', None), (3000, ''AUDIT_SCHEDULED'', Some 1)]"]
  show ?thesis by simp
qed

subsection \<open>The shape of the stage graph\<close>

lemma stage_index:
  "index_of ''LEAD'' STAGE_CHOICES = 0"
  "index_of ''OPPORTUNITY'' STAGE_CHOICES = 1"
  "index_of ''CONTRACT'' STAGE_CHOICES = 2"
  "index_of ''AUDIT_SCHEDULED'' STAGE_CHOICES = 3"
  "index_of ''AUDIT_IN_PROGRESS'' STAGE_CHOICES = 4"
  "index_of ''AUDIT_COMPLETED'' STAGE_CHOICES = 5"
  "index_of ''CERTIFICATE_ISSUED'' STAGE_CHOICES = 6"
  "index_of ''SURVEILLANCE_DUE'' STAGE_CHOICES = 7"
  "index_of ''CLOSED'' STAGE_CHOICES = 8"
  by (simp_all add: STAGE_CHOICES_def)

lemma stage_member:
  "''LEAD'' \<in> set STAGE_CHOICES" "''OPPORTUNITY'' \<in> set STAGE_CHOICES"
  "''CONTRACT'' \<in> set STAGE_CHOICES" "''AUDIT_SCHEDULED'' \<in> set STAGE_CHOICES"
  "''AUDIT_IN_PROGRESS'' \<in> set STAGE_CHOICES" "''AUDIT_COMPLETED'' \<in> set STAGE_CHOICES"
  "''CERTIFICATE_ISSUED'' \<in> set STAGE_CHOICES" "''SURVEILLANCE_DUE'' \<in> set STAGE_CHOICES"
  "''CLOSED'' \<in> set STAGE_CHOICES"
  by (simp_all add: STAGE_CHOICES_def)

lemma successors_in_choices:
  assumes "b \<in> set (successors a)"
  shows "a \<in> set STAGE_CHOICES \<and> b \<in> set STAGE_CHOICES"
  using successors_cases [OF assms]
  by (elim insertE emptyE; simp only: prod.inject; elim conjE; simp only: stage_member; simp)

lemma forward_step:
  assumes "b \<in> set (successors a)" "(a, b) \<noteq> (''SURVEILLANCE_DUE'', ''AUDIT_SCHEDULED'')"
  shows "index_of a STAGE_CHOICES < index_of b STAGE_CHOICES"
  using successors_cases [OF assms(1)] assms(2)
  by (elim insertE emptyE; simp only: prod.inject; elim conjE; simp only: stage_index; simp)

lemma forward_path_sorted:
  "forward_path path \<Longrightarrow>
   sorted_wrt (\<lambda>a b. index_of a STAGE_CHOICES < index_of b STAGE_CHOICES) path"
proof (induction path rule: forward_path.induct)
  case (1 a b rest)
  then have step: "index_of a STAGE_CHOICES < index_of b STAGE_CHOICES"
    and tl: "sorted_wrt (\<lambda>a b. index_of a STAGE_CHOICES < index_of b STAGE_CHOICES) (b # rest)"
    by (simp_all add: forward_step)
  from tl have "\<forall>x\<in>set rest. index_of b STAGE_CHOICES < index_of x STAGE_CHOICES" by simp
  with step have "\<forall>x\<in>set (b # rest). index_of a STAGE_CHOICES < index_of x STAGE_CHOICES"
    by auto
  with tl show ?case by simp
qed simp_all

lemma forward_path_distinct: "forward_path path \<Longrightarrow> distinct path"
proof -
  assume "forward_path path"
  then have "sorted_wrt (\<lambda>a b. index_of a STAGE_CHOICES < index_of b STAGE_CHOICES) path"
    by (rule forward_path_sorted)
  then have "sorted_wrt (\<lambda>a b. a \<noteq> b) path"
    by (rule sorted_wrt_mono_rel [rotated]) auto
  then show ?thesis by (simp add: distinct_conv_nth sorted_wrt_iff_nth_less) (metis nat_neq_iff)
qed

text \<open>
  C3, as stated: in every sequence of valid transitions starting at \<open>LEAD\<close> no stage is
  entered a second time. The sequence below is one of valid transitions from \<open>LEAD\<close>,
  and it enters \<open>AUDIT_SCHEDULED\<close> twice: \<open>valid_progressions\<close> lists
  \<open>AUDIT_SCHEDULED\<close> as a successor of \<open>SURVEILLANCE_DUE\<close>.
\<close>

theorem stage_graph_cycle_counterexample:
  "hd [''LEAD'', ''OPPORTUNITY'', ''CONTRACT'', ''AUDIT_SCHEDULED'', ''AUDIT_IN_PROGRESS'',
       ''AUDIT_COMPLETED'', ''SURVEILLANCE_DUE'', ''AUDIT_SCHEDULED''] = ''LEAD''
   \<and> valid_path [''LEAD'', ''OPPORTUNITY'', ''CONTRACT'', ''AUDIT_SCHEDULED'',
       ''AUDIT_IN_PROGRESS'', ''AUDIT_COMPLETED'', ''SURVEILLANCE_DUE'', ''AUDIT_SCHEDULED'']
   \<and> \<not> distinct [''LEAD'', ''OPPORTUNITY'', ''CONTRACT'', ''AUDIT_SCHEDULED'',
       ''AUDIT_IN_PROGRESS'', ''AUDIT_COMPLETED'', ''SURVEILLANCE_DUE'', ''AUDIT_SCHEDULED'']"
  by (simp add: successors_def valid_progressions_def)

text \<open>
  C3, amended. The adjacency dict is a graph over the 9 stages of \<open>STAGE_CHOICES\<close> in
  which every transition but the one from \<open>SURVEILLANCE_DUE\<close> back to
  \<open>AUDIT_SCHEDULED\<close> leads to a later stage in the order of \<open>STAGE_CHOICES\<close>; so in
  every sequence of valid transitions that does not take that one transition, no stage
  is entered a second time.
\<close>

theorem forward_path_never_reenters:
  "(b \<in> set (successors a) \<longrightarrow>
      a \<in> set STAGE_CHOICES \<and> b \<in> set STAGE_CHOICES
      \<and> ((a, b) \<noteq> (''SURVEILLANCE_DUE'', ''AUDIT_SCHEDULED'') \<longrightarrow>
           index_of a STAGE_CHOICES < index_of b STAGE_CHOICES))
   \<and> (forward_path path \<longrightarrow> distinct path)"
  using successors_in_choices [of b a] forward_step [of b a] forward_path_distinct [of path]
  by blast

theorem forward_path_never_reenters_witness:
  "''CONTRACT'' \<in> set (successors ''OPPORTUNITY'')
   \<and> index_of ''OPPORTUNITY'' STAGE_CHOICES < index_of ''CONTRACT'' STAGE_CHOICES
   \<and> forward_path [''LEAD'', ''OPPORTUNITY'', ''CONTRACT'', ''AUDIT_SCHEDULED'',
        ''AUDIT_IN_PROGRESS'', ''AUDIT_COMPLETED'', ''CERTIFICATE_ISSUED'', ''SURVEILLANCE_DUE'',
        ''CLOSED'']
   \<and> distinct [''LEAD'', ''OPPORTUNITY'', ''CONTRACT'', ''AUDIT_SCHEDULED'',
        ''AUDIT_IN_PROGRESS'', ''AUDIT_COMPLETED'', ''CERTIFICATE_ISSUED'', ''SURVEILLANCE_DUE'',
        ''CLOSED'']"
proof -
  have edge: "''CONTRACT'' \<in> set (successors ''OPPORTUNITY'')"
    by (simp add: successors_def valid_progressions_def)
  have path: "forward_path [''LEAD'', ''OPPORTUNITY'', ''CONTRACT'', ''AUDIT_SCHEDULED'',
        ''AUDIT_IN_PROGRESS'', ''AUDIT_COMPLETED'', ''CERTIFICATE_ISSUED'', ''SURVEILLANCE_DUE'',
        ''CLOSED'']"
    by (simp add: successors_def valid_progressions_def)
  have ne: "(''OPPORTUNITY'', ''CONTRACT'') \<noteq> (''SURVEILLANCE_DUE'', ''AUDIT_SCHEDULED'')"
    by simp
  from edge path ne
    forward_path_never_reenters [of "''CONTRACT''" "''OPPORTUNITY''"
      "[''LEAD'', ''OPPORTUNITY'', ''CONTRACT'', ''AUDIT_SCHEDULED'',
        ''AUDIT_IN_PROGRESS'', ''AUDIT_COMPLETED'', ''CERTIFICATE_ISSUED'', ''SURVEILLANCE_DUE'',
        ''CLOSED'']"]
  show ?thesis by blast
qed

section \<open>The certification status\<close>

text \<open>
  C8. Saving a certification that has an expiry date and is neither suspended nor
  revoked sets the status, and nothing else, from the expiry date: expired when the
  date is before today, expiring-soon when it is at most 90 days away, unchanged when
  it is further away and the status was pending, and active otherwise. A suspended or
  revoked certification is saved as it is.
\<close>

theorem Certification_save_recomputes_status:
  "(expiry_date c = Some e \<and> cert_status c \<noteq> ''suspended'' \<and> cert_status c \<noteq> ''revoked'' \<longrightarrow>
      Certification_save today c =
        c\<lparr>cert_status :=
             (if e < today then ''expired''
              else if e - today \<le> 90 then ''expiring-soon''
              else if cert_status c = ''pending'' then cert_status c
              else ''active'')\<rparr>)
   \<and> (cert_status c = ''suspended'' \<or> cert_status c = ''revoked'' \<longrightarrow>
        Certification_save today c = c)"
  by (auto simp: Certification_save_def Let_def split: option.splits)

theorem Certification_save_recomputes_status_witness:
  "cert_status (Certification_save 100 test_certification) = ''expiring-soon''
   \<and> cert_status (Certification_save 100 (test_certification\<lparr>cert_status := ''revoked''\<rparr>))
       = ''revoked''"
  using Certification_save_recomputes_status [of test_certification 130 100]
    Certification_save_recomputes_status
      [of "test_certification\<lparr>cert_status := ''revoked''\<rparr>" 130 100]
  by (simp add: test_certification_def)

lemma save_in_choices:
  "cert_status c \<in> set STATUS_CHOICES \<Longrightarrow>
   cert_status (Certification_save today c) \<in> set STATUS_CHOICES"
  by (auto simp: Certification_save_def Let_def STATUS_CHOICES_def split: option.splits)

lemma save_update_in_choices:
  "s \<in> set STATUS_CHOICES \<Longrightarrow>
   cert_status (Certification_save today (c\<lparr>cert_status := s\<rparr>)) \<in> set STATUS_CHOICES"
  by (rule save_in_choices) simp

text \<open>
  C7, as stated: the status is always one of active, expiring, expired, suspended,
  revoked. Saving the active certificate below 30 days before its expiry sets the
  status \<open>expiring-soon\<close>, and saving a certificate that has the default status
  \<open>pending\<close> three years before its expiry keeps \<open>pending\<close>; neither is in that list.
\<close>

theorem save_leaves_spec_enumeration_counterexample:
  "cert_status test_certification \<in> set spec_lifecycle_statuses
   \<and> cert_status (Certification_save 100 test_certification) = ''expiring-soon''
   \<and> ''expiring-soon'' \<notin> set spec_lifecycle_statuses
   \<and> cert_status (Certification_save 100
         (test_certification\<lparr>cert_status := ''pending'', expiry_date := Some 1195\<rparr>)) = ''pending''
   \<and> ''pending'' \<notin> set spec_lifecycle_statuses"
  by (simp add: test_certification_def spec_lifecycle_statuses_def Certification_save_def)

text \<open>
  C7, amended. The statuses are the six keys of \<open>STATUS_CHOICES\<close>: pending, active,
  expiring-soon, expired, suspended, revoked. \<open>save\<close> and the suspend, revoke and
  reactivate actions take a certification whose status is one of them to a
  certification whose status is one of them.
\<close>

theorem status_stays_in_STATUS_CHOICES:
  assumes "cert_status c \<in> set STATUS_CHOICES"
  shows "cert_status (Certification_save today c) \<in> set STATUS_CHOICES
    \<and> cert_status (suspend today c) \<in> set STATUS_CHOICES
    \<and> cert_status (revoke today c) \<in> set STATUS_CHOICES
    \<and> cert_status (reactivate today c) \<in> set STATUS_CHOICES"
proof -
  have "''suspended'' \<in> set STATUS_CHOICES" "''revoked'' \<in> set STATUS_CHOICES"
    "''active'' \<in> set STATUS_CHOICES"
    by (simp_all add: STATUS_CHOICES_def)
  then show ?thesis
    using assms
    by (simp add: suspend_def revoke_def reactivate_def save_in_choices save_update_in_choices)
qed

theorem status_stays_in_STATUS_CHOICES_witness:
  "cert_status test_certification \<in> set STATUS_CHOICES
   \<and> cert_status (Certification_save 100 test_certification) \<in> set STATUS_CHOICES
   \<and> cert_status (suspend 100 test_certification) = ''suspended''
   \<and> cert_status (reactivate 100 (suspend 100 test_certification)) = ''expiring-soon''"
proof -
  have h: "cert_status test_certification \<in> set STATUS_CHOICES"
    by (simp add: test_certification_def STATUS_CHOICES_def)
  have "cert_status (suspend 100 test_certification) = ''suspended''"
    "cert_status (reactivate 100 (suspend 100 test_certification)) = ''expiring-soon''"
    by (simp_all add: test_certification_def suspend_def reactivate_def Certification_save_def)
  with h status_stays_in_STATUS_CHOICES [OF h, of 100] show ?thesis by simp
qed

section \<open>Contract numbers\<close>














section \<open>Pipeline numbers\<close>












lemma save_member: "fst (save now p db) \<in> set (pipelines (snd (save now p db)))"
  using save_db(5) [of now p db "fst (save now p db)" "snd (save now p db)"] by simp







section \<open>The signal handlers and \<open>update_from_related_object\<close>\<close>

subsection \<open>What \<open>save\<close> and the milestone rows leave alone\<close>

lemma save_preserved:
  "current_stage (fst (save now q db)) = current_stage q"
  "status (fst (save now q db)) = status q"
  "client_name (fst (save now q db)) = client_name q"
  "estimated_value (fst (save now q db)) = estimated_value q"
  "currency (fst (save now q db)) = currency q"
  "lead (fst (save now q db)) = lead q"
  "opportunity (fst (save now q db)) = opportunity q"
  "contract (fst (save now q db)) = contract q"
  by (simp_all add: save_def base_save_def assign_number_def assign_pipeline_id_def Let_def
        split: option.splits)




lemma create_milestone_tables:
  "pipelines (create_milestone m db) = pipelines db"
  "stage_transitions (create_milestone m db) = stage_transitions db"
  by (simp_all add: create_milestone_def)

lemma fold_create_milestone_tables:
  "pipelines (fold create_milestone ms db) = pipelines db"
  "stage_transitions (fold create_milestone ms db) = stage_transitions db"
  by (induction ms arbitrary: db) (simp_all add: create_milestone_tables)

lemma milestones_tables:
  "pipelines (create_lead_milestones now p l db) = pipelines db"
  "stage_transitions (create_lead_milestones now p l db) = stage_transitions db"
  "pipelines (create_opportunity_milestones p opp db) = pipelines db"
  "stage_transitions (create_opportunity_milestones p opp db) = stage_transitions db"
  "pipelines (create_contract_milestones now p c db) = pipelines db"
  "stage_transitions (create_contract_milestones now p c db) = stage_transitions db"
  "pipelines (create_audit_milestones p a db) = pipelines db"
  "stage_transitions (create_audit_milestones p a db) = stage_transitions db"
  by (simp_all add: create_lead_milestones_def create_opportunity_milestones_def
        create_contract_milestones_def create_audit_milestones_def Let_def
        create_milestone_tables fold_create_milestone_tables)






subsection \<open>\<open>update_from_related_object\<close> goes through \<open>advance_stage\<close>\<close>




subsection \<open>The stored stage across a save\<close>
















subsection \<open>The rows the handlers leave\<close>

lemma lead_handler_row:
  assumes "created" "lead_status l \<in> set [''QUALIFIED'', ''PROPOSAL_SENT'']"
  shows "\<exists>r\<in>set (pipelines (create_pipeline_from_lead now l created db)).
           lead r = Some (lead_pk l)
           \<and> (\<not> list_ex (\<lambda>r. lead r = Some (lead_pk l)) (pipelines db) \<longrightarrow>
                current_stage r = ''LEAD'' \<and> client_name r = company_name l
                \<and> estimated_value r = lead_estimated_value l \<and> currency r = lead_currency l)"
proof (cases "list_ex (\<lambda>r. lead r = Some (lead_pk l)) (pipelines db)")
  case True
  with assms show ?thesis
    by (auto simp: create_pipeline_from_lead_def list_ex_iff)
next
  case False
  let ?q = "new_pipeline\<lparr>client_name := company_name l,
                            service_description := ''Lead for '' @ company_name l,
                            estimated_value := lead_estimated_value l,
                            currency := lead_currency l,
                            current_stage := ''LEAD'',
                            lead := Some (lead_pk l),
                            owner := lead_assigned_to l,
                            lead_created_date := Some (lead_created_at l),
                            created_by := lead_created_by l\<rparr>"
  have rows: "pipelines (create_pipeline_from_lead now l created db) =
      pipelines (snd (save now ?q db))"
    using assms False
    by (simp add: create_pipeline_from_lead_def split_beta milestones_tables)
  show ?thesis
    unfolding rows
    by (rule bexI [OF _ save_member]) (simp add: save_preserved)
qed

lemma opportunity_handler_row:
  "\<exists>r\<in>set (pipelines (update_pipeline_from_opportunity now opp True db)).
     opportunity r = Some (opp_pk opp) \<and> current_stage r = ''OPPORTUNITY''
     \<and> estimated_value r = Some (opp_estimated_value opp) \<and> currency r = opp_currency opp
     \<and> (\<forall>n. opp_client_name opp = Some n \<longrightarrow> client_name r = n)"
proof -
  have "\<exists>q. pipelines (update_pipeline_from_opportunity now opp True db) =
              pipelines (snd (save now q db))
     \<and> opportunity q = Some (opp_pk opp) \<and> current_stage q = ''OPPORTUNITY''
     \<and> estimated_value q = Some (opp_estimated_value opp) \<and> currency q = opp_currency opp
     \<and> (\<forall>n. opp_client_name opp = Some n \<longrightarrow> client_name q = n)"
    by (auto simp: update_pipeline_from_opportunity_def split_beta milestones_tables
          split: option.splits)
  then obtain q where q: "pipelines (update_pipeline_from_opportunity now opp True db) =
              pipelines (snd (save now q db))"
     "opportunity q = Some (opp_pk opp)" "current_stage q = ''OPPORTUNITY''"
     "estimated_value q = Some (opp_estimated_value opp)" "currency q = opp_currency opp"
     "\<forall>n. opp_client_name opp = Some n \<longrightarrow> client_name q = n"
    by blast
  show ?thesis
    unfolding q(1)
    by (rule bexI [OF _ save_member]) (simp add: save_preserved q)
qed

lemma contract_handler_row:
  "\<exists>r\<in>set (pipelines (update_pipeline_from_contract now c True db)).
     contract r = Some (contract_pk c) \<and> current_stage r = ''CONTRACT''
     \<and> client_name r = client_organization c
     \<and> estimated_value r = Some (contract_value c) \<and> currency r = contract_currency c"
proof -
  have "\<exists>q. pipelines (update_pipeline_from_contract now c True db) =
              pipelines (snd (save now q db))
     \<and> contract q = Some (contract_pk c) \<and> current_stage q = ''CONTRACT''
     \<and> client_name q = client_organization c
     \<and> estimated_value q = Some (contract_value c) \<and> currency q = contract_currency c"
    by (auto simp: update_pipeline_from_contract_def split_beta milestones_tables
          split: option.splits)
  then obtain q where q: "pipelines (update_pipeline_from_contract now c True db) =
              pipelines (snd (save now q db))"
     "contract q = Some (contract_pk c)" "current_stage q = ''CONTRACT''"
     "client_name q = client_organization c"
     "estimated_value q = Some (contract_value c)" "currency q = contract_currency c"
    by blast
  show ?thesis
    unfolding q(1)
    by (rule bexI [OF _ save_member]) (simp add: save_preserved q)
qed

lemma lead_handler_idle:
  "\<not> (created \<and> lead_status l \<in> set [''QUALIFIED'', ''PROPOSAL_SENT'']) \<Longrightarrow>
   create_pipeline_from_lead now l created db = db"
  unfolding create_pipeline_from_lead_def by (rule if_not_P)

lemma contract_handler_idle: "update_pipeline_from_contract now c False db = db"
  by (simp add: update_pipeline_from_contract_def)

lemma create_pipeline_from_lead_example: "create_pipeline_from_lead 1000 test_lead True empty_db =
    test_db\<lparr>milestones := [\<lparr>milestone_pipeline = Some 1, milestone_type = ''PROPOSAL_DUE'',
        title = ''Send Proposal'',
        description = ''Prepare and send proposal to Test Company PL-00001'',
        due_date = 7, is_critical = True, assigned_to = None\<rparr>]\<rparr>"
  by (simp add: create_pipeline_from_lead_def test_lead_def empty_db_def test_db_def
       test_pipeline_def new_pipeline_def save_def base_save_def assign_number_def
       assign_pipeline_id_def falsy_number_def next_number_def order_by_number_desc_first_def
       first_desc_def fresh_pk_def create_lead_milestones_def create_milestone_def date_of_def
       zero_pad_5_1 Let_def)




subsection \<open>The projection\<close>

text \<open>
  C4, as stated: whenever a Lead, Opportunity, Contract or Audit is saved, there is a
  pipeline row, created or updated by the handler, that reflects the saved object. A
  lead created with status \<open>NEW\<close> in an empty database, and a lead that is updated,
  leave the database empty: there is no pipeline row at all.
\<close>

theorem unqualified_lead_gets_no_pipeline_counterexample:
  "post_save 1000 (LeadObj (test_lead\<lparr>lead_status := ''NEW''\<rparr>)) True empty_db = (None, empty_db)
   \<and> post_save 1500 (LeadObj (test_lead\<lparr>lead_status := ''CONTACTED''\<rparr>)) False empty_db
       = (None, empty_db)
   \<and> pipelines empty_db = []"
  by (simp add: post_save_def create_pipeline_from_lead_def test_lead_def empty_db_def)

text \<open>
  C4, amended. When a Lead is created with status \<open>QUALIFIED\<close> or \<open>PROPOSAL_SENT\<close>, or
  an Opportunity or a Contract is created, the handler leaves a pipeline row linked to
  the saved object; for an Opportunity or a Contract, and for a Lead that had no
  pipeline, the row is at the stage \<open>OPPORTUNITY\<close>, \<open>CONTRACT\<close> or \<open>LEAD\<close> and carries the
  client name, the value and the currency of the object. Any other save of a Lead, and
  the update of a Contract, change nothing.
\<close>

theorem created_objects_get_pipeline_row:
  "(created \<and> lead_status l \<in> set [''QUALIFIED'', ''PROPOSAL_SENT''] \<longrightarrow>
      (\<exists>r\<in>set (pipelines (create_pipeline_from_lead now l created db)).
           lead r = Some (lead_pk l)
           \<and> (\<not> list_ex (\<lambda>r. lead r = Some (lead_pk l)) (pipelines db) \<longrightarrow>
                current_stage r = ''LEAD'' \<and> client_name r = company_name l
                \<and> estimated_value r = lead_estimated_value l \<and> currency r = lead_currency l)))
   \<and> (\<not> (created \<and> lead_status l \<in> set [''QUALIFIED'', ''PROPOSAL_SENT'']) \<longrightarrow>
        create_pipeline_from_lead now l created db = db)
   \<and> (\<exists>r\<in>set (pipelines (update_pipeline_from_opportunity now opp True db)).
        opportunity r = Some (opp_pk opp) \<and> current_stage r = ''OPPORTUNITY''
        \<and> estimated_value r = Some (opp_estimated_value opp) \<and> currency r = opp_currency opp
        \<and> (\<forall>n. opp_client_name opp = Some n \<longrightarrow> client_name r = n))
   \<and> (\<exists>r\<in>set (pipelines (update_pipeline_from_contract now c True db)).
        contract r = Some (contract_pk c) \<and> current_stage r = ''CONTRACT''
        \<and> client_name r = client_organization c
        \<and> estimated_value r = Some (contract_value c) \<and> currency r = contract_currency c)
   \<and> update_pipeline_from_contract now c False db = db"
  using lead_handler_row [of created l now db] lead_handler_idle [of created l now db]
    opportunity_handler_row [of now opp db] contract_handler_row [of now c db]
    contract_handler_idle [of now c db]
  by blast

theorem created_objects_get_pipeline_row_witness:
  "lead_status test_lead \<in> set [''QUALIFIED'', ''PROPOSAL_SENT'']
   \<and> pipelines (create_pipeline_from_lead 1000 test_lead True empty_db) = [test_pipeline]
   \<and> (\<exists>r\<in>set (pipelines (create_pipeline_from_lead 1000 test_lead True empty_db)).
         lead r = Some (lead_pk test_lead) \<and> current_stage r = ''LEAD''
         \<and> client_name r = company_name test_lead)
   \<and> create_pipeline_from_lead 1500 (test_lead\<lparr>lead_status := ''NEW''\<rparr>) True empty_db = empty_db"
proof -
  have st: "lead_status test_lead \<in> set [''QUALIFIED'', ''PROPOSAL_SENT'']"
    by (simp add: test_lead_def)
  have nst: "\<not> (True \<and> lead_status (test_lead\<lparr>lead_status := ''NEW''\<rparr>)
                 \<in> set [''QUALIFIED'', ''PROPOSAL_SENT''])"
    by simp
  have none: "\<not> list_ex (\<lambda>r. lead r = Some (lead_pk test_lead)) (pipelines empty_db)"
    by (simp add: empty_db_def)
  have rows: "pipelines (create_pipeline_from_lead 1000 test_lead True empty_db) = [test_pipeline]"
    by (simp add: create_pipeline_from_lead_example test_db_def)
  from created_objects_get_pipeline_row [of True test_lead 1000 empty_db] st none
  have "\<exists>r\<in>set (pipelines (create_pipeline_from_lead 1000 test_lead True empty_db)).
         lead r = Some (lead_pk test_lead) \<and> current_stage r = ''LEAD''
         \<and> client_name r = company_name test_lead"
    by blast
  moreover from created_objects_get_pipeline_row [of True "test_lead\<lparr>lead_status := ''NEW''\<rparr>" 1500 empty_db] nst
  have "create_pipeline_from_lead 1500 (test_lead\<lparr>lead_status := ''NEW''\<rparr>) True empty_db
      = empty_db"
    by blast
  ultimately show ?thesis using st rows by simp
qed

subsection \<open>The two update paths\<close>




end
